theory Spec2Isabelle
  imports Main "HOL-Library.AList"
begin

section \<open>Python values used by the coordinator\<close>

text \<open>
  A Python \<open>dict\<close> keeps its keys in insertion order and holds each key once. It is
  modelled as an association list; \<open>d[k] = v\<close> is \<^const>\<open>AList.update\<close>, which
  overwrites the value of a key that is present (keeping its position) and appends a
  new key at the end, as Python does. \<open>d.get(k, default)\<close> is \<open>dict_get\<close>.
\<close>

type_synonym 'v dict = "(string \<times> 'v) list"

definition dict_get :: "'v dict \<Rightarrow> string \<Rightarrow> 'v \<Rightarrow> 'v" where
  "dict_get d k dflt = (case map_of d k of None \<Rightarrow> dflt | Some v \<Rightarrow> v)"

definition keys :: "'v dict \<Rightarrow> string list" where
  "keys d = map fst d"

definition values_of :: "'v dict \<Rightarrow> 'v list" where
  "values_of d = map snd d"

subsection \<open>Strings\<close>

text \<open>
  \<open>str.lower()\<close> on the ASCII letters; every other character is left as it is.
  \<open>key in s\<close> on strings is contiguous containment.
\<close>

definition lower_char :: "char \<Rightarrow> char" where
  "lower_char c =
     (let n = (of_char c :: nat) in if 65 \<le> n \<and> n \<le> 90 then char_of (n + 32) else c)"

definition lower :: "string \<Rightarrow> string" where
  "lower s = map lower_char s"

fun startswith :: "string \<Rightarrow> string \<Rightarrow> bool" where
  "startswith s [] = True"
| "startswith [] (k # ks) = False"
| "startswith (c # cs) (k # ks) = (c = k \<and> startswith cs ks)"

fun str_contains :: "string \<Rightarrow> string \<Rightarrow> bool" where
  "str_contains [] k = (k = [])"
| "str_contains (c # cs) k = (startswith (c # cs) k \<or> str_contains cs k)"

section \<open>post\_to\_reddit.py: choosing the subreddit\<close>

text \<open>The table of \<open>RedditPoster.get_suitable_subreddits\<close>, in its insertion order.\<close>

definition subreddit_mapping :: "string list dict" where
  "subreddit_mapping =
    [(''ai'', [''artificial'', ''MachineLearning'', ''singularity'', ''technology'']),
     (''technology'', [''technology'', ''programming'', ''coding'', ''tech'']),
     (''business'', [''business'', ''entrepreneur'', ''startups'', ''investing'']),
     (''education'', [''education'', ''teaching'', ''learning'', ''studytips'']),
     (''science'', [''science'', ''askscience'', ''EverythingScience'']),
     (''programming'', [''programming'', ''coding'', ''learnprogramming'', ''webdev'']),
     (''finance'', [''personalfinance'', ''investing'', ''financialindependence'']),
     (''health'', [''health'', ''fitness'', ''nutrition'', ''wellness'']),
     (''gaming'', [''gaming'', ''games'', ''pcgaming'', ''nintendo'']),
     (''music'', [''music'', ''WeAreTheMusicMakers'', ''edmproduction'']),
     (''art'', [''art'', ''drawing'', ''painting'', ''design'']),
     (''photography'', [''photography'', ''photocritique'', ''itookapicture''])]"

definition default_subreddits :: "string list" where
  "default_subreddits = [''test'', ''CasualConversation'', ''discussion'']"

text \<open>
  The loop \<open>for key, subreddits in subreddit_mapping.items(): if key in topic_lower:
  suitable_subreddits.extend(subreddits)\<close>, with the list built so far as accumulator.
\<close>

fun find_matching :: "string list dict \<Rightarrow> string \<Rightarrow> string list \<Rightarrow> string list" where
  "find_matching [] topic_lower suitable = suitable"
| "find_matching ((key, subreddits) # rest) topic_lower suitable =
     find_matching rest topic_lower
       (if str_contains topic_lower key then suitable @ subreddits else suitable)"

definition get_suitable_subreddits :: "string \<Rightarrow> string list" where
  "get_suitable_subreddits topic =
     (let topic_lower = lower topic;
          suitable_subreddits = find_matching subreddit_mapping topic_lower [];
          suitable_subreddits =
            (if suitable_subreddits = [] then default_subreddits else suitable_subreddits)
      in take 3 suitable_subreddits)"

text \<open>
  \<open>subreddits[0] if subreddits else "test"\<close> in
  \<open>PostManager._post_to_single_platform\<close>.
\<close>

definition choose_subreddit :: "string list \<Rightarrow> string" where
  "choose_subreddit subreddits = (case subreddits of [] \<Rightarrow> ''test'' | s # _ \<Rightarrow> s)"

section \<open>Exceptions and per-platform outcomes\<close>

text \<open>
  An exception is a value: its class (the classes the handlers of this repository tell
  apart, and \<open>Exception\<close> for every other one) and its message \<open>str(e)\<close>. A call
  that may raise returns \<open>exn + 'a\<close>, \<open>Inl\<close> being the raise.
\<close>

datatype exn =
    TooManyRequests string
  | Forbidden string
  | BadRequest string
  | RequestException string
  | KeyError string
  | TimeoutError string
  | Exception string

fun str :: "exn \<Rightarrow> string" where
  "str (TooManyRequests m) = m"
| "str (Forbidden m) = m"
| "str (BadRequest m) = m"
| "str (RequestException m) = m"
| "str (KeyError m) = m"
| "str (TimeoutError m) = m"
| "str (Exception m) = m"

text \<open>
  The dict an adapter or the coordinator gives for one platform is either
  \<open>{"success": True, ...}\<close> with the adapter's fields, or
  \<open>{"success": False, "error": msg}\<close>. \<open>succeeded\<close> is
  \<open>result.get('success', False)\<close>.
\<close>

datatype outcome = Success "string dict" | Failure string

fun succeeded :: "outcome \<Rightarrow> bool" where
  "succeeded (Success fields) = True"
| "succeeded (Failure msg) = False"

text \<open>Python's \<open>s[:n]\<close>: a negative \<open>n\<close> counts from the end.\<close>

definition slice_to :: "string \<Rightarrow> int \<Rightarrow> string" where
  "slice_to s n = (if 0 \<le> n then take (nat n) s else take (length s - nat (- n)) s)"

section \<open>config.py\<close>

record settings =
  enabled :: bool
  max_length :: int
  tone :: string

definition PLATFORMS :: "settings dict" where
  "PLATFORMS =
    [(''twitter'', \<lparr>enabled = True, max_length = 280, tone = ''concise and engaging''\<rparr>),
     (''linkedin'', \<lparr>enabled = True, max_length = 3000, tone = ''professional and insightful''\<rparr>),
     (''reddit'', \<lparr>enabled = True, max_length = 10000, tone = ''casual and informative''\<rparr>)]"

text \<open>
  \<open>config.PLATFORMS[platform]['enabled']\<close>, read for the three keys of the table
  only, so the lookup never raises.
\<close>

definition platform_enabled :: "string \<Rightarrow> bool" where
  "platform_enabled platform =
     (case map_of PLATFORMS platform of Some s \<Rightarrow> enabled s | None \<Rightarrow> False)"

section \<open>llm\_generator.py\<close>

text \<open>
  The language model is outside the program. \<open>backend idea platform\<close> is what the
  HTTP exchange of \<open>_generate_single_post\<close> yields for the prompt of one platform: the
  stripped text of the first choice, or the exception raised on the way.
\<close>

type_synonym backend = "string \<Rightarrow> string \<Rightarrow> exn + string"

definition generate_single_post :: "backend \<Rightarrow> string \<Rightarrow> string \<Rightarrow> settings \<Rightarrow> exn + string" where
  "generate_single_post backend idea platform s =
     (case backend idea platform of
        Inr content \<Rightarrow>
          Inr (if int (length content) > max_length s
               then slice_to content (max_length s - 3) @ ''...'' else content)
      | Inl (RequestException m) \<Rightarrow> Inl (Exception (''Failed to generate content: '' @ m))
      | Inl (KeyError m) \<Rightarrow> Inl (Exception ''Invalid response from LLM API'')
      | Inl e \<Rightarrow> Inl e)"

text \<open>
  \<open>generate_posts\<close>: one entry per enabled platform, in the order of the table; an
  exception of the single generation is caught and leaves \<open>None\<close> for that platform.
\<close>

fun generate_loop :: "backend \<Rightarrow> string \<Rightarrow> settings dict \<Rightarrow> string option dict \<Rightarrow> string option dict" where
  "generate_loop backend idea [] posts = posts"
| "generate_loop backend idea ((platform, s) # rest) posts =
     generate_loop backend idea rest
       (if enabled s then
          (case generate_single_post backend idea platform s of
             Inr post_content \<Rightarrow> AList.update platform (Some post_content) posts
           | Inl e \<Rightarrow> AList.update platform None posts)
        else posts)"

definition generate_posts :: "backend \<Rightarrow> string \<Rightarrow> string option dict" where
  "generate_posts backend idea = generate_loop backend idea PLATFORMS []"

text \<open>Truthiness of a generated text: \<open>None\<close> and the empty string are false.\<close>

fun truthy :: "string option \<Rightarrow> bool" where
  "truthy None = False"
| "truthy (Some content) = (content \<noteq> [])"

section \<open>utils.py\<close>

definition truncate_content :: "string \<Rightarrow> int \<Rightarrow> string \<Rightarrow> string" where
  "truncate_content content max_len platform =
     (if int (length content) \<le> max_len then content
      else if platform = ''twitter'' then slice_to content (max_len - 10) @ ''...''
      else slice_to content (max_len - 3) @ ''...'')"

text \<open>
  \<open>log_post\<close> writes a row to the database and has no handler of its own: an
  exception of the database leaves it. The sink says, for the platform, content, idea
  and status of a call, whether the write raises.
\<close>

type_synonym sink = "string \<Rightarrow> string \<Rightarrow> string \<Rightarrow> string \<Rightarrow> exn option"

definition log_post :: "sink \<Rightarrow> string \<Rightarrow> string \<Rightarrow> string \<Rightarrow> string \<Rightarrow> exn + unit" where
  "log_post db platform content original_idea status =
     (case db platform content original_idea status of Some e \<Rightarrow> Inl e | None \<Rightarrow> Inr ())"

section \<open>post\_to\_twitter.py\<close>

text \<open>
  The Twitter client is outside the program: \<open>client\<close> says whether
  \<open>self.client\<close> was initialised, and \<open>create_tweet text\<close> is what
  \<open>self.client.create_tweet(text=...)\<close> does: it raises, or returns a response whose
  \<open>data\<close> is empty (\<open>None\<close>) or holds the id of the tweet.
\<close>

record twitter =
  client :: bool
  create_tweet :: "string \<Rightarrow> exn + string option"

text \<open>The body of the \<open>try\<close> of \<open>post_tweet\<close>, after the truncation.\<close>

definition tweet_body :: "twitter \<Rightarrow> sink \<Rightarrow> string \<Rightarrow> string \<Rightarrow> exn + outcome" where
  "tweet_body tw db content original_idea =
     (case create_tweet tw content of
        Inl e \<Rightarrow> Inl e
      | Inr (Some tweet_id) \<Rightarrow>
          (let tweet_url = ''https://twitter.com/user/status/'' @ tweet_id in
           case log_post db ''twitter'' content original_idea ''success'' of
             Inl e \<Rightarrow> Inl e
           | Inr u \<Rightarrow>
               Inr (Success [(''tweet_id'', tweet_id), (''url'', tweet_url), (''content'', content)]))
      | Inr None \<Rightarrow>
          (case log_post db ''twitter'' content original_idea ''failed'' of
             Inl e \<Rightarrow> Inl e
           | Inr u \<Rightarrow> Inr (Failure ''No data returned from Twitter API'')))"

text \<open>
  The four \<open>except\<close> clauses of \<open>post_tweet\<close>. Each logs the failure and returns the
  failure dict; an exception of that \<open>log_post\<close> is raised inside the handler and
  leaves \<open>post_tweet\<close>.
\<close>

definition tweet_handlers :: "sink \<Rightarrow> string \<Rightarrow> string \<Rightarrow> exn \<Rightarrow> exn + outcome" where
  "tweet_handlers db content original_idea e =
     (let error_msg =
        (case e of
           TooManyRequests m \<Rightarrow> ''Twitter API rate limit exceeded''
         | Forbidden m \<Rightarrow> ''Twitter API access forbidden: '' @ m
         | BadRequest m \<Rightarrow> ''Twitter API bad request: '' @ m
         | _ \<Rightarrow> ''Unexpected error posting to Twitter: '' @ str e)
      in case log_post db ''twitter'' content original_idea ''failed'' of
           Inl e' \<Rightarrow> Inl e'
         | Inr u \<Rightarrow> Inr (Failure error_msg))"

definition post_tweet :: "twitter \<Rightarrow> sink \<Rightarrow> string \<Rightarrow> string \<Rightarrow> exn + outcome" where
  "post_tweet tw db content original_idea =
     (if \<not> client tw then
        (case log_post db ''twitter'' content original_idea ''failed'' of
           Inl e \<Rightarrow> Inl e
         | Inr u \<Rightarrow> Inr (Failure ''Twitter API not initialized''))
      else
        (let content = truncate_content content 280 ''twitter'' in
         case tweet_body tw db content original_idea of
           Inr r \<Rightarrow> Inr r
         | Inl e \<Rightarrow> tweet_handlers db content original_idea e))"

section \<open>post\_manager.py\<close>

text \<open>
  The manager holds the generator, the three posters and the availability computed by
  its constructor. A poster is what its publish method does on its arguments: it raises
  or returns an outcome. The generator is indexed by the number of earlier calls of
  \<open>generate_posts\<close> in the same request, since the model need not answer twice alike.
\<close>

record post_manager =
  llm_generator :: "nat \<Rightarrow> backend"
  twitter_poster :: "string \<Rightarrow> string \<Rightarrow> exn + outcome"
  linkedin_poster :: "string \<Rightarrow> string \<Rightarrow> exn + outcome"
  reddit_poster :: "string \<Rightarrow> string \<Rightarrow> string \<Rightarrow> exn + outcome"
  available_platforms :: "bool dict"

text \<open>
  \<open>_check_platform_availability\<close>; the arguments say whether
  \<open>twitter_poster.client\<close>, \<open>linkedin_poster.access_token\<close>,
  \<open>linkedin_poster.user_id\<close> and \<open>reddit_poster.reddit\<close> are not \<open>None\<close>.
\<close>

definition check_platform_availability :: "bool \<Rightarrow> bool \<Rightarrow> bool \<Rightarrow> bool \<Rightarrow> bool dict" where
  "check_platform_availability tw_client li_token li_user rd_client =
     (let availability = [];
          availability = AList.update ''twitter'' (platform_enabled ''twitter'' \<and> tw_client) availability;
          availability =
            AList.update ''linkedin'' (platform_enabled ''linkedin'' \<and> li_token \<and> li_user) availability;
          availability = AList.update ''reddit'' (platform_enabled ''reddit'' \<and> rd_client) availability
      in availability)"

text \<open>
  What a request does to the outside is kept as a list of events: a call of
  \<open>generate_posts\<close>, and a call of a poster's publish method with its arguments.
\<close>

datatype event = Generated string | Published string "string list"

fun published_platform :: "event \<Rightarrow> string option" where
  "published_platform (Published platform args) = Some platform"
| "published_platform (Generated idea) = None"

text \<open>The \<open>except Exception\<close> of \<open>_post_to_single_platform\<close>.\<close>

definition error_posting :: "string \<Rightarrow> exn + outcome \<Rightarrow> outcome" where
  "error_posting platform r =
     (case r of
        Inr res \<Rightarrow> res
      | Inl e \<Rightarrow> Failure (''Error posting to '' @ platform @ '': '' @ str e))"

definition post_to_single_platform ::
  "post_manager \<Rightarrow> string \<Rightarrow> string \<Rightarrow> string \<Rightarrow> outcome \<times> event list" where
  "post_to_single_platform mgr platform content original_idea =
     (if platform = ''twitter'' then
        (error_posting platform (twitter_poster mgr content original_idea),
         [Published ''twitter'' [content, original_idea]])
      else if platform = ''linkedin'' then
        (error_posting platform (linkedin_poster mgr content original_idea),
         [Published ''linkedin'' [content, original_idea]])
      else if platform = ''reddit'' then
        (let subreddits = get_suitable_subreddits original_idea;
             subreddit = choose_subreddit subreddits
         in (error_posting platform (reddit_poster mgr content original_idea subreddit),
             [Published ''reddit'' [content, original_idea, subreddit]]))
      else (Failure (''Unknown platform: '' @ platform), []))"

subsection \<open>The fan-out\<close>

text \<open>
  \<open>executor.submit\<close> hands the call to a worker of the pool and returns a future.
  The pool has three workers and at most three platforms are ever available, so every
  submitted call starts at once, at time 0 of the fan-out. \<open>dur platform\<close> is the time
  the worker of that platform takes; the future is done at that time and then holds
  what the worker returned or raised. The worker runs \<open>_post_to_single_platform\<close>,
  which catches every exception of its body, so the futures made by the first loop hold
  a value; the second loop is written for any future.
\<close>

record future =
  fut_platform :: string
  done_at :: nat
  fut_value :: "exn + outcome"

text \<open>
  The first loop of \<open>_post_to_platforms\<close>. The state is \<open>future_to_platform\<close> (in
  insertion order), \<open>results\<close> and the events so far. The test \<open>content and
  available\<close> is written by cases of \<open>content\<close>: \<open>None\<close> and the empty string are
  the contents for which \<open>not content\<close> holds.
\<close>

fun submit_loop ::
  "(string \<Rightarrow> nat) \<Rightarrow> post_manager \<Rightarrow> string \<Rightarrow> string option dict \<Rightarrow>
   future list \<times> outcome dict \<times> event list \<Rightarrow> future list \<times> outcome dict \<times> event list" where
  "submit_loop dur mgr original_idea [] st = st"
| "submit_loop dur mgr original_idea ((platform, content) # rest) (futs, res, evs) =
     submit_loop dur mgr original_idea rest
       (case content of
          Some text \<Rightarrow>
            if text \<noteq> [] \<and> dict_get (available_platforms mgr) platform False then
              (let (r, ev) = post_to_single_platform mgr platform text original_idea in
               (futs @ [\<lparr>fut_platform = platform, done_at = dur platform, fut_value = Inr r\<rparr>],
                res, evs @ ev))
            else if text = [] then
              (futs, AList.update platform (Failure ''No content generated'') res, evs)
            else (futs, AList.update platform (Failure ''Platform not available'') res, evs)
        | None \<Rightarrow> (futs, AList.update platform (Failure ''No content generated'') res, evs))"

text \<open>
  \<open>as_completed(fs)\<close>, called without a timeout, yields each future once it is done,
  in the order of completion, and blocks until the next one is done.
\<close>

definition as_completed :: "future list \<Rightarrow> future list" where
  "as_completed futs = sort_key done_at futs"

text \<open>
  \<open>future.result(timeout)\<close> called at time \<open>now\<close>: the value (or the worker's
  exception) as soon as the future is done, if that is no later than \<open>now + timeout\<close>;
  otherwise it raises \<open>TimeoutError\<close> at \<open>now + timeout\<close>. The second component is
  the time at which the call returns.
\<close>

definition future_result :: "future \<Rightarrow> nat \<Rightarrow> nat \<Rightarrow> (exn + outcome) \<times> nat" where
  "future_result f timeout now =
     (if done_at f \<le> now + timeout then (fut_value f, max now (done_at f))
      else (Inl (TimeoutError []), now + timeout))"

text \<open>
  The second loop: \<open>for future in as_completed(future_to_platform)\<close>. The iteration
  receives a future at the time it is done, then asks for its result with a timeout of
  60.
\<close>

fun collect_loop :: "future list \<Rightarrow> outcome dict \<times> nat \<Rightarrow> outcome dict \<times> nat" where
  "collect_loop [] st = st"
| "collect_loop (f # fs) (res, now) =
     (let platform = fut_platform f;
          now = max now (done_at f);
          (r, now) = future_result f 60 now
      in collect_loop fs
           (case r of
              Inr result \<Rightarrow> AList.update platform result res
            | Inl e \<Rightarrow>
                AList.update platform
                  (Failure (''Exception posting to '' @ platform @ '': '' @ str e)) res,
            now))"

text \<open>Leaving the \<open>with\<close> block waits for every submitted call (\<open>shutdown(wait=True)\<close>).\<close>

definition shutdown :: "future list \<Rightarrow> nat \<Rightarrow> nat" where
  "shutdown futs now = fold (\<lambda>f t. max t (done_at f)) futs now"

record fanout =
  fan_results :: "outcome dict"
  fan_events :: "event list"
  fan_finished :: nat

definition post_to_platforms ::
  "(string \<Rightarrow> nat) \<Rightarrow> post_manager \<Rightarrow> string option dict \<Rightarrow> string \<Rightarrow> fanout" where
  "post_to_platforms dur mgr posts original_idea =
     (let (futs, res, evs) = submit_loop dur mgr original_idea posts ([], [], []);
          (res, now) = collect_loop (as_completed futs) (res, 0);
          now = shutdown futs now
      in \<lparr>fan_results = res, fan_events = evs, fan_finished = now\<rparr>)"

subsection \<open>Processing an idea\<close>

text \<open>
  The dict returned to the caller, one field per key; a key that the dict does not have
  is \<open>None\<close>.
\<close>

record summary_info =
  successful_posts :: nat
  total_platforms :: nat
  summary_idea :: string

record aggregated =
  success :: bool
  error :: "string option"
  results :: "outcome dict option"
  summary :: "summary_info option"
  message :: "string option"
  retried_platforms :: "string list option"

text \<open>
  \<open>process_idea\<close>. No call in the body of its \<open>try\<close> raises in this model (the
  generator and the fan-out catch what their callees raise), so the handler at the end
  of the method has no case here.
\<close>

definition process_idea ::
  "(string \<Rightarrow> nat) \<Rightarrow> post_manager \<Rightarrow> string \<Rightarrow> aggregated \<times> event list" where
  "process_idea dur mgr idea =
     (let posts = generate_posts (llm_generator mgr 0) idea;
          evs = [Generated idea]
      in if \<not> list_ex truthy (values_of posts) then
           (\<lparr>success = False, error = Some ''Failed to generate any posts'', results = None,
             summary = None, message = None, retried_platforms = None\<rparr>, evs)
         else
           (let fan = post_to_platforms dur mgr posts idea;
                success_count = length (filter succeeded (values_of (fan_results fan)));
                total = length (filter (\<lambda>(p, available). available) (available_platforms mgr))
            in (\<lparr>success = success_count > 0, error = None, results = Some (fan_results fan),
                 summary = Some \<lparr>successful_posts = success_count, total_platforms = total,
                                 summary_idea = idea\<rparr>,
                 message = None, retried_platforms = None\<rparr>,
                evs @ fan_events fan)))"

subsection \<open>Retrying the failed platforms\<close>

text \<open>
  The loop that regenerates: one call of \<open>generate_posts\<close> for every failed platform
  that is available, of which only that platform's entry is kept (\<open>None\<close> when the
  generated dict has no such key). \<open>generate_posts\<close> catches what the single
  generations raise, so the \<open>except\<close> around the call has no case here.
\<close>

fun regenerate_loop ::
  "post_manager \<Rightarrow> string \<Rightarrow> string list \<Rightarrow> string option dict \<times> event list \<Rightarrow>
   string option dict \<times> event list" where
  "regenerate_loop mgr idea [] st = st"
| "regenerate_loop mgr idea (platform # rest) (posts, evs) =
     regenerate_loop mgr idea rest
       (if dict_get (available_platforms mgr) platform False then
          (let platform_posts = generate_posts (llm_generator mgr (length evs)) idea in
           (AList.update platform (dict_get platform_posts platform None) posts,
            evs @ [Generated idea]))
        else (posts, evs))"

definition failed_of :: "aggregated \<Rightarrow> string list" where
  "failed_of original_results =
     map fst (filter (\<lambda>(platform, result). \<not> succeeded result)
       (case results original_results of None \<Rightarrow> [] | Some r \<Rightarrow> r))"

definition retry_failed_posts ::
  "(string \<Rightarrow> nat) \<Rightarrow> post_manager \<Rightarrow> aggregated \<Rightarrow> string \<Rightarrow> aggregated \<times> event list" where
  "retry_failed_posts dur mgr original_results idea =
     (let failed_platforms = failed_of original_results
      in if failed_platforms = [] then
           (\<lparr>success = True, error = None, results = None, summary = None,
             message = Some ''No failed posts to retry'', retried_platforms = None\<rparr>, [])
         else
           (let (posts, evs) = regenerate_loop mgr idea failed_platforms ([], []);
                fan = post_to_platforms dur mgr posts idea
            in (\<lparr>success = list_ex succeeded (values_of (fan_results fan)), error = None,
                 results = Some (fan_results fan), summary = None, message = None,
                 retried_platforms = Some failed_platforms\<rparr>,
                evs @ fan_events fan)))"

section \<open>Notions used to state the properties\<close>

text \<open>
  The candidates for the sub-forum as the specification words them: the lists of all
  table keys contained in the lower-cased idea, one after the other, or the fixed
  default list when no key is contained.
\<close>

definition candidates_by_keyword :: "string \<Rightarrow> string list" where
  "candidates_by_keyword idea =
     (let matches =
        concat (map snd (filter (\<lambda>(key, subs). str_contains (lower idea) key) subreddit_mapping))
      in if matches = [] then default_subreddits else matches)"

text \<open>The text of a content, and whether an entry of the content set is dispatched.\<close>

definition text_of :: "string option \<Rightarrow> string" where
  "text_of content = (case content of Some t \<Rightarrow> t | None \<Rightarrow> [])"

definition dispatchable :: "post_manager \<Rightarrow> string \<times> string option \<Rightarrow> bool" where
  "dispatchable mgr pc = (truthy (snd pc) \<and> dict_get (available_platforms mgr) (fst pc) False)"

text \<open>The outcome written by the first loop for an entry that is not dispatched.\<close>

definition synthetic :: "string option \<Rightarrow> outcome" where
  "synthetic content =
     (if truthy content then Failure ''Platform not available''
      else Failure ''No content generated'')"

text \<open>The future of a dispatched entry, and the outcome the second loop stores for a future.\<close>

definition worker_future ::
  "(string \<Rightarrow> nat) \<Rightarrow> post_manager \<Rightarrow> string \<Rightarrow> string \<times> string option \<Rightarrow> future" where
  "worker_future dur mgr idea pc =
     \<lparr>fut_platform = fst pc, done_at = dur (fst pc),
      fut_value = Inr (fst (post_to_single_platform mgr (fst pc) (text_of (snd pc)) idea))\<rparr>"

definition as_outcome :: "future \<Rightarrow> outcome" where
  "as_outcome f =
     (case fut_value f of
        Inr r \<Rightarrow> r
      | Inl e \<Rightarrow> Failure (''Exception posting to '' @ fut_platform f @ '': '' @ str e))"

text \<open>How often the events hold a publish call for a platform.\<close>

definition publish_count :: "string \<Rightarrow> event list \<Rightarrow> nat" where
  "publish_count platform evs =
     length (filter (\<lambda>e. published_platform e = Some platform) evs)"

text \<open>The number of calls of the generator, and of publish calls, among the events.\<close>

definition generate_count :: "event list \<Rightarrow> nat" where
  "generate_count evs = length (filter (\<lambda>e. published_platform e = None) evs)"

definition publish_total :: "event list \<Rightarrow> nat" where
  "publish_total evs = length (filter (\<lambda>e. published_platform e \<noteq> None) evs)"

section \<open>Example requests\<close>

text \<open>
  The scenario of the specification: the generator gives text for Twitter and Reddit and
  fails for LinkedIn; Twitter and LinkedIn are available, Reddit is not.
\<close>

definition scenario_manager :: post_manager where
  "scenario_manager =
     \<lparr>llm_generator = (\<lambda>n idea platform.
        if platform = ''linkedin'' then Inl (RequestException ''connection refused'')
        else Inr ''Post about AI...''),
      twitter_poster = (\<lambda>content idea. Inr (Success [(''tweet_id'', ''1'')])),
      linkedin_poster = (\<lambda>content idea. Inr (Success [(''post_id'', ''2'')])),
      reddit_poster = (\<lambda>content idea subreddit. Inl (Exception ''boom'')),
      available_platforms = check_platform_availability True True True False\<rparr>"

definition unit_durations :: "string \<Rightarrow> nat" where
  "unit_durations platform = 1"

text \<open>A manager whose generator is unreachable, and a result without failures.\<close>

definition silent_generator_manager :: post_manager where
  "silent_generator_manager =
     scenario_manager\<lparr>llm_generator := (\<lambda>n idea platform. Inl (RequestException ''unreachable''))\<rparr>"

definition all_success_result :: aggregated where
  "all_success_result =
     \<lparr>success = True, error = None,
      results = Some [(''twitter'', Success [(''tweet_id'', ''1'')]),
                      (''linkedin'', Success [(''post_id'', ''2'')])],
      summary = Some \<lparr>successful_posts = 2, total_platforms = 2, summary_idea = ''AI in education''\<rparr>,
      message = None, retried_platforms = None\<rparr>"

text \<open>
  The result of the scenario, and the scenario's manager once the generator answers for
  every platform.
\<close>

definition scenario_result :: aggregated where
  "scenario_result =
     \<lparr>success = True, error = None,
      results = Some [(''linkedin'', Failure ''No content generated''),
                      (''reddit'', Failure ''Platform not available''),
                      (''twitter'', Success [(''tweet_id'', ''1'')])],
      summary = Some \<lparr>successful_posts = 1, total_platforms = 2,
                       summary_idea = ''AI in education''\<rparr>,
      message = None, retried_platforms = None\<rparr>"

definition recovered_manager :: post_manager where
  "recovered_manager =
     scenario_manager\<lparr>llm_generator := (\<lambda>n idea platform. Inr ''Post about AI...'')\<rparr>"

text \<open>The manager of the scenario with every platform available and a generator that answers.\<close>

definition all_available_manager :: post_manager where
  "all_available_manager =
     recovered_manager\<lparr>available_platforms := check_platform_availability True True True True\<rparr>"

text \<open>
  A Twitter client that accepts every tweet, a database that works, one that raises while
  a success is logged, and the manager whose Twitter poster is \<open>post_tweet\<close> on these.
\<close>

definition accepting_twitter :: twitter where
  "accepting_twitter = \<lparr>client = True, create_tweet = (\<lambda>text. Inr (Some ''42''))\<rparr>"

definition healthy_database :: sink where
  "healthy_database platform content original_idea status = None"

definition locked_database :: sink where
  "locked_database platform content original_idea status =
     (if status = ''success'' then Some (Exception ''database is locked'') else None)"

definition logging_manager :: "sink \<Rightarrow> post_manager" where
  "logging_manager db = all_available_manager\<lparr>twitter_poster := post_tweet accepting_twitter db\<rparr>"

text \<open>Twitter takes 100 time units, every other platform 1.\<close>

definition slow_durations :: "string \<Rightarrow> nat" where
  "slow_durations platform = (if platform = ''twitter'' then 100 else 1)"

section \<open>The choice of the subreddit\<close>

lemma find_matching_len:
  "\<forall>(k, subs) \<in> set m. 3 \<le> length subs \<Longrightarrow> acc = [] \<or> 3 \<le> length acc \<Longrightarrow>
   find_matching m t acc = [] \<or> 3 \<le> length (find_matching m t acc)"
  by (induction m t acc rule: find_matching.induct) auto

lemma subreddit_mapping_len: "\<forall>(k, subs) \<in> set subreddit_mapping. 3 \<le> length subs"
  by (simp add: subreddit_mapping_def)

lemma length_get_suitable: "length (get_suitable_subreddits topic) = 3"
  using find_matching_len [OF subreddit_mapping_len, of "[]" "lower topic"]
  by (auto simp: get_suitable_subreddits_def Let_def default_subreddits_def)

lemma find_matching_concat:
  "find_matching m t acc =
   acc @ concat (map snd (filter (\<lambda>(key, subs). str_contains t key) m))"
  by (induction m t acc rule: find_matching.induct) auto

lemma get_suitable_candidates:
  "get_suitable_subreddits idea = take 3 (candidates_by_keyword idea)"
  unfolding get_suitable_subreddits_def candidates_by_keyword_def find_matching_concat Let_def
  by (simp only: append_Nil)

text \<open>
  C10. For every topic, \<open>get_suitable_subreddits\<close> returns between one and three
  subreddits (in fact three), so the list is never empty: the coordinator's
  \<open>subreddits[0] if subreddits else "test"\<close> always takes the first element and never
  the fallback for the empty list.
\<close>

theorem suitable_subreddits_bounds:
  "1 \<le> length (get_suitable_subreddits topic) \<and>
   length (get_suitable_subreddits topic) \<le> 3 \<and>
   get_suitable_subreddits topic \<noteq> [] \<and>
   choose_subreddit (get_suitable_subreddits topic) = get_suitable_subreddits topic ! 0"
proof -
  have len: "length (get_suitable_subreddits topic) = 3"
    by (rule length_get_suitable)
  then obtain a b c where "get_suitable_subreddits topic = [a, b, c]"
    by (auto simp: length_Suc_conv numeral_3_eq_3)
  then show ?thesis
    by (simp add: choose_subreddit_def)
qed

theorem suitable_subreddits_bounds_witness:
  "get_suitable_subreddits ''AI in education'' = [''artificial'', ''MachineLearning'', ''singularity'']
   \<and> choose_subreddit (get_suitable_subreddits ''AI in education'') = ''artificial''
   \<and> length (get_suitable_subreddits ''AI in education'') \<le> 3"
proof -
  have "get_suitable_subreddits ''AI in education'' =
        [''artificial'', ''MachineLearning'', ''singularity'']"
    by code_simp
  then show ?thesis
    using suitable_subreddits_bounds [of "''AI in education''"] by simp
qed

section \<open>The two loops of the fan-out\<close>

lemma submit_loop_futs:
  "fst (submit_loop dur mgr idea posts (futs, res, evs)) =
   futs @ map (worker_future dur mgr idea) (filter (dispatchable mgr) posts)"
proof (induction posts arbitrary: futs res evs)
  case Nil
  then show ?case by simp
next
  case (Cons pc posts)
  obtain p c where pc: "pc = (p, c)" by (cases pc)
  show ?case
    by (cases c)
       (simp_all add: pc Cons.IH dispatchable_def worker_future_def text_of_def
          split: prod.splits)
qed

lemma submit_loop_events:
  "snd (snd (submit_loop dur mgr idea posts (futs, res, evs))) =
   evs @ concat (map (\<lambda>pc. snd (post_to_single_platform mgr (fst pc) (text_of (snd pc)) idea))
                  (filter (dispatchable mgr) posts))"
proof (induction posts arbitrary: futs res evs)
  case Nil
  then show ?case by simp
next
  case (Cons pc posts)
  obtain p c where pc: "pc = (p, c)" by (cases pc)
  show ?case
    by (cases c)
       (simp_all add: pc Cons.IH dispatchable_def text_of_def split: prod.splits)
qed

lemma submit_loop_results:
  "fst (snd (submit_loop dur mgr idea posts (futs, res, evs))) =
   fold (\<lambda>pc r. AList.update (fst pc) (synthetic (snd pc)) r)
     (filter (\<lambda>pc. \<not> dispatchable mgr pc) posts) res"
proof (induction posts arbitrary: futs res evs)
  case Nil
  then show ?case by simp
next
  case (Cons pc posts)
  obtain p c where pc: "pc = (p, c)" by (cases pc)
  show ?case
    by (cases c)
       (simp_all add: pc Cons.IH dispatchable_def synthetic_def split: prod.splits)
qed

lemma future_result_done: "done_at f \<le> now \<Longrightarrow> future_result f t now = (fut_value f, now)"
  by (simp add: future_result_def max_def)

lemma collect_loop_eq:
  "collect_loop fs (res, now) =
   (fold (\<lambda>f r. AList.update (fut_platform f) (as_outcome f) r) fs res,
    fold (\<lambda>f t. max t (done_at f)) fs now)"
proof (induction fs arbitrary: res now)
  case Nil
  then show ?case by simp
next
  case (Cons f fs)
  have "future_result f 60 (max now (done_at f)) = (fut_value f, max now (done_at f))"
    by (rule future_result_done) simp
  then show ?case
    by (simp add: Cons.IH as_outcome_def Let_def split: sum.splits)
qed

text \<open>Storing entries with distinct keys one after the other.\<close>

lemma fold_update_other:
  "p \<notin> k ` set xs \<Longrightarrow> map_of (fold (\<lambda>x r. AList.update (k x) (v x) r) xs res) p = map_of res p"
  by (induction xs arbitrary: res) (auto simp: update_conv')

lemma fold_update_member:
  "distinct (map k xs) \<Longrightarrow> x \<in> set xs \<Longrightarrow>
   map_of (fold (\<lambda>x r. AList.update (k x) (v x) r) xs res) (k x) = Some (v x)"
proof (induction xs arbitrary: res)
  case Nil
  then show ?case by simp
next
  case (Cons y ys)
  show ?case
  proof (cases "x = y")
    case True
    with Cons.prems have "k y \<notin> k ` set ys" by auto
    then show ?thesis using True by (simp add: fold_update_other update_conv')
  next
    case False
    with Cons show ?thesis by auto
  qed
qed

lemma fold_update_keys:
  "fst ` set (fold (\<lambda>x r. AList.update (k x) (v x) r) xs res) = fst ` set res \<union> k ` set xs"
proof (induction xs arbitrary: res)
  case Nil
  then show ?case by simp
next
  case (Cons y ys)
  have "fst ` set (AList.update (k y) (v y) res) = insert (k y) (fst ` set res)"
    using dom_update [of "k y" "v y" res] by (simp add: dom_map_of_conv_image_fst)
  then show ?case by (simp add: Cons.IH)
qed

lemma fold_update_distinct:
  "distinct (map fst res) \<Longrightarrow> distinct (map fst (fold (\<lambda>x r. AList.update (k x) (v x) r) xs res))"
  by (induction xs arbitrary: res) (simp_all add: distinct_update)

section \<open>What the fan-out returns\<close>

lemma post_to_platforms_eq:
  "post_to_platforms dur mgr posts idea =
     (let futs = map (worker_future dur mgr idea) (filter (dispatchable mgr) posts);
          res0 = fold (\<lambda>pc r. AList.update (fst pc) (synthetic (snd pc)) r)
                   (filter (\<lambda>pc. \<not> dispatchable mgr pc) posts) []
      in \<lparr>fan_results =
            fold (\<lambda>f r. AList.update (fut_platform f) (as_outcome f) r) (as_completed futs) res0,
          fan_events =
            concat (map (\<lambda>pc. snd (post_to_single_platform mgr (fst pc) (text_of (snd pc)) idea))
                     (filter (dispatchable mgr) posts)),
          fan_finished =
            shutdown futs (fold (\<lambda>f t. max t (done_at f)) (as_completed futs) 0)\<rparr>)"
proof -
  obtain futs res evs where s: "submit_loop dur mgr idea posts ([], [], []) = (futs, res, evs)"
    by (cases "submit_loop dur mgr idea posts ([], [], [])")
  have f: "futs = map (worker_future dur mgr idea) (filter (dispatchable mgr) posts)"
    using submit_loop_futs [of dur mgr idea posts "[]" "[]" "[]"] s by simp
  have r: "res = fold (\<lambda>pc r. AList.update (fst pc) (synthetic (snd pc)) r)
                   (filter (\<lambda>pc. \<not> dispatchable mgr pc) posts) []"
    using submit_loop_results [of dur mgr idea posts "[]" "[]" "[]"] s by simp
  have e: "evs = concat (map (\<lambda>pc. snd (post_to_single_platform mgr (fst pc) (text_of (snd pc)) idea))
                     (filter (dispatchable mgr) posts))"
    using submit_loop_events [of dur mgr idea posts "[]" "[]" "[]"] s by simp
  show ?thesis
    unfolding post_to_platforms_def s Let_def prod.case collect_loop_eq
    by (simp only: f r e)
qed

lemma worker_future_simps:
  "fut_platform (worker_future dur mgr idea pc) = fst pc"
  "done_at (worker_future dur mgr idea pc) = dur (fst pc)"
  "as_outcome (worker_future dur mgr idea pc) =
     fst (post_to_single_platform mgr (fst pc) (text_of (snd pc)) idea)"
  by (simp_all add: worker_future_def as_outcome_def)

lemma distinct_map_as_completed:
  "distinct (map g (as_completed futs)) = distinct (map g futs)"
  by (simp add: as_completed_def distinct_map)

lemma set_as_completed: "set (as_completed futs) = set futs"
  by (simp add: as_completed_def)

lemma fan_results_dispatched:
  assumes d: "distinct (map fst posts)" and m: "(p, c) \<in> set posts"
    and disp: "dispatchable mgr (p, c)"
  shows "map_of (fan_results (post_to_platforms dur mgr posts idea)) p =
         Some (fst (post_to_single_platform mgr p (text_of c) idea))"
proof -
  let ?futs = "map (worker_future dur mgr idea) (filter (dispatchable mgr) posts)"
  have "map fut_platform ?futs = map fst (filter (dispatchable mgr) posts)"
    by (simp add: worker_future_simps)
  moreover have "distinct (map fst (filter (dispatchable mgr) posts))"
    using d by (rule distinct_map_filter)
  ultimately have "distinct (map fut_platform ?futs)"
    by (simp only:)
  then have dd: "distinct (map fut_platform (as_completed ?futs))"
    by (simp only: distinct_map_as_completed)
  have mem: "worker_future dur mgr idea (p, c) \<in> set (as_completed ?futs)"
    using m disp by (simp add: set_as_completed)
  show ?thesis
    using fold_update_member [OF dd mem, of as_outcome]
    by (simp add: post_to_platforms_eq Let_def worker_future_simps)
qed

lemma fan_results_synthetic:
  assumes d: "distinct (map fst posts)" and m: "(p, c) \<in> set posts"
    and disp: "\<not> dispatchable mgr (p, c)"
  shows "map_of (fan_results (post_to_platforms dur mgr posts idea)) p = Some (synthetic c)"
proof -
  let ?futs = "map (worker_future dur mgr idea) (filter (dispatchable mgr) posts)"
  let ?rest = "filter (\<lambda>pc. \<not> dispatchable mgr pc) posts"
  have "p \<notin> fst ` set (filter (dispatchable mgr) posts)"
  proof
    assume "p \<in> fst ` set (filter (dispatchable mgr) posts)"
    then obtain c' where c': "(p, c') \<in> set posts" "dispatchable mgr (p, c')" by auto
    from d m c'(1) have "c' = c" by (meson eq_key_imp_eq_value)
    with c'(2) disp show False by simp
  qed
  then have notin: "p \<notin> fut_platform ` set (as_completed ?futs)"
    by (simp add: set_as_completed image_image worker_future_simps)
  have dr: "distinct (map fst ?rest)" using d by (simp add: distinct_map_filter)
  have mr: "(p, c) \<in> set ?rest" using m disp by simp
  have "map_of (fold (\<lambda>pc r. AList.update (fst pc) (synthetic (snd pc)) r) ?rest []) p
        = Some (synthetic c)"
    using fold_update_member [OF dr mr, of "\<lambda>pc. synthetic (snd pc)" "[]"] by simp
  then show ?thesis
    using fold_update_other [OF notin, of as_outcome]
    by (simp add: post_to_platforms_eq Let_def)
qed

lemma fan_results_keys:
  "set (keys (fan_results (post_to_platforms dur mgr posts idea))) = set (keys posts)"
proof -
  have "fst ` set (filter (\<lambda>pc. \<not> dispatchable mgr pc) posts) \<union>
        fst ` set (filter (dispatchable mgr) posts) = fst ` set posts"
    by auto
  then show ?thesis
    by (simp add: post_to_platforms_eq Let_def keys_def fold_update_keys set_as_completed
        image_image worker_future_simps del: set_filter)
qed

lemma fan_results_distinct:
  "distinct (keys (fan_results (post_to_platforms dur mgr posts idea)))"
  by (simp add: post_to_platforms_eq Let_def keys_def fold_update_distinct)

lemma fan_events_eq:
  "fan_events (post_to_platforms dur mgr posts idea) =
   concat (map (\<lambda>pc. snd (post_to_single_platform mgr (fst pc) (text_of (snd pc)) idea))
            (filter (dispatchable mgr) posts))"
  by (simp add: post_to_platforms_eq Let_def)

section \<open>Processing an idea: one outcome per platform\<close>

lemma generate_posts_shape:
  "\<exists>c1 c2 c3. generate_posts b idea = [(''twitter'', c1), (''linkedin'', c2), (''reddit'', c3)]"
  by (simp add: generate_posts_def PLATFORMS_def split: sum.splits)

lemma availability_shape:
  "check_platform_availability a b c d = [(''twitter'', a), (''linkedin'', b \<and> c), (''reddit'', d)]"
  by (simp add: check_platform_availability_def platform_enabled_def PLATFORMS_def)

lemma publish_count_append:
  "publish_count p (xs @ ys) = publish_count p xs + publish_count p ys"
  by (simp add: publish_count_def)

lemma publish_count_single:
  "publish_count p (snd (post_to_single_platform mgr q t idea)) =
   (if p = q \<and> q \<in> {''twitter'', ''linkedin'', ''reddit''} then 1 else 0)"
  by (auto simp: publish_count_def post_to_single_platform_def Let_def)

lemma publish_count_concat:
  "distinct (map fst posts) \<Longrightarrow>
   publish_count p (concat (map (\<lambda>pc. snd (post_to_single_platform mgr (fst pc) (text_of (snd pc)) idea))
      (filter D posts))) =
   (if p \<in> {''twitter'', ''linkedin'', ''reddit''} \<and> p \<in> fst ` set (filter D posts) then 1 else 0)"
proof (induction posts)
  case Nil
  then show ?case by (simp add: publish_count_def)
next
  case (Cons pc posts)
  then have notin: "fst pc \<notin> fst ` set posts" and d: "distinct (map fst posts)" by auto
  show ?case
  proof (cases "D pc")
    case True
    show ?thesis
    proof (cases "p = fst pc")
      case True
      with notin have "p \<notin> fst ` set (filter D posts)" by auto
      with \<open>D pc\<close> True show ?thesis
        using Cons.IH [OF d] by (simp add: publish_count_append publish_count_single)
    next
      case False
      with \<open>D pc\<close> show ?thesis
        using Cons.IH [OF d] by (simp add: publish_count_append publish_count_single)
    qed
  next
    case False
    then show ?thesis using Cons.IH [OF d] by simp
  qed
qed

lemma dict_get_distinct:
  "distinct (map fst d) \<Longrightarrow> (p, c) \<in> set d \<Longrightarrow> dict_get d p dflt = c"
  by (simp add: dict_get_def)

lemma fan_results_entry:
  assumes d: "distinct (map fst posts)" and m: "(p, c) \<in> set posts"
  shows "map_of (fan_results (post_to_platforms dur mgr posts idea)) p =
         Some (if \<not> truthy c then Failure ''No content generated''
               else if \<not> dict_get (available_platforms mgr) p False
                 then Failure ''Platform not available''
               else fst (post_to_single_platform mgr p (text_of c) idea))"
proof (cases "dispatchable mgr (p, c)")
  case True
  then show ?thesis
    using fan_results_dispatched [OF d m True] by (simp add: dispatchable_def)
next
  case False
  then show ?thesis
    using fan_results_synthetic [OF d m False] by (auto simp: dispatchable_def synthetic_def)
qed

lemma fan_publish_count:
  assumes d: "distinct (map fst posts)" and m: "(p, c) \<in> set posts"
    and k: "p \<in> {''twitter'', ''linkedin'', ''reddit''}"
  shows "publish_count p (fan_events (post_to_platforms dur mgr posts idea)) =
         (if truthy c \<and> dict_get (available_platforms mgr) p False then 1 else 0)"
proof -
  have "p \<in> fst ` set (filter (dispatchable mgr) posts) \<longleftrightarrow> dispatchable mgr (p, c)"
  proof
    assume "p \<in> fst ` set (filter (dispatchable mgr) posts)"
    then obtain c' where c': "(p, c') \<in> set posts" "dispatchable mgr (p, c')" by auto
    from d m c'(1) have "c' = c" by (meson eq_key_imp_eq_value)
    with c'(2) show "dispatchable mgr (p, c)" by simp
  next
    assume "dispatchable mgr (p, c)"
    with m show "p \<in> fst ` set (filter (dispatchable mgr) posts)" by force
  qed
  then show ?thesis
    using k by (simp add: fan_events_eq publish_count_concat [OF d] dispatchable_def)
qed

lemma process_idea_fanout:
  assumes "list_ex truthy (values_of (generate_posts (llm_generator mgr 0) idea))"
  shows "process_idea dur mgr idea =
     (let fan = post_to_platforms dur mgr (generate_posts (llm_generator mgr 0) idea) idea;
          n = length (filter succeeded (values_of (fan_results fan)))
      in (\<lparr>success = 0 < n, error = None, results = Some (fan_results fan),
           summary = Some \<lparr>successful_posts = n,
             total_platforms =
               length (filter (\<lambda>(p, available). available) (available_platforms mgr)),
             summary_idea = idea\<rparr>,
           message = None, retried_platforms = None\<rparr>,
          Generated idea # fan_events fan))"
  using assms by (simp add: process_idea_def Let_def)

text \<open>
  C1. When the generated content set is not entirely absent, \<open>process_idea\<close> returns a
  results mapping with exactly one outcome for every platform in the union of the keys
  of the content set and of the availability map, no platform missing and none twice:
  the synthetic failure "No content generated" where the content is absent, the
  synthetic failure "Platform not available" where content is present and the platform
  is not available, and otherwise the outcome of the one publish call made for that
  platform. The publish method is called once for a platform of the last kind and not
  at all for the others.
\<close>

theorem fanout_covers_every_platform:
  assumes avail: "available_platforms mgr =
      check_platform_availability tw_client li_token li_user rd_client"
    and posts: "posts = generate_posts (llm_generator mgr 0) idea"
    and some: "list_ex truthy (values_of posts)"
  shows "\<exists>res. results (fst (process_idea dur mgr idea)) = Some res \<and>
           distinct (keys res) \<and>
           set (keys res) = set (keys posts) \<union> set (keys (available_platforms mgr)) \<and>
           (\<forall>p \<in> set (keys posts) \<union> set (keys (available_platforms mgr)).
              map_of res p =
                Some (if \<not> truthy (dict_get posts p None) then Failure ''No content generated''
                      else if \<not> dict_get (available_platforms mgr) p False
                        then Failure ''Platform not available''
                      else fst (post_to_single_platform mgr p
                                  (text_of (dict_get posts p None)) idea)) \<and>
              publish_count p (snd (process_idea dur mgr idea)) =
                (if truthy (dict_get posts p None) \<and>
                    dict_get (available_platforms mgr) p False then 1 else 0))"
proof -
  obtain c1 c2 c3 where shape: "posts = [(''twitter'', c1), (''linkedin'', c2), (''reddit'', c3)]"
    using generate_posts_shape [of "llm_generator mgr 0" idea] posts by auto
  have d: "distinct (map fst posts)" by (simp add: shape)
  have kp: "set (keys posts) = {''twitter'', ''linkedin'', ''reddit''}"
    by (auto simp: shape keys_def)
  have ka: "set (keys (available_platforms mgr)) = {''twitter'', ''linkedin'', ''reddit''}"
    by (auto simp: avail availability_shape keys_def)
  let ?fan = "post_to_platforms dur mgr posts idea"
  have pr: "process_idea dur mgr idea =
     (let fan = ?fan; n = length (filter succeeded (values_of (fan_results fan)))
      in (\<lparr>success = 0 < n, error = None, results = Some (fan_results fan),
           summary = Some \<lparr>successful_posts = n,
             total_platforms =
               length (filter (\<lambda>(p, available). available) (available_platforms mgr)),
             summary_idea = idea\<rparr>,
           message = None, retried_platforms = None\<rparr>,
          Generated idea # fan_events fan))"
    using process_idea_fanout [of mgr idea dur] some posts by simp
  have r: "results (fst (process_idea dur mgr idea)) = Some (fan_results ?fan)"
    by (simp add: pr Let_def)
  have e: "snd (process_idea dur mgr idea) = Generated idea # fan_events ?fan"
    by (simp add: pr Let_def)
  have each: "map_of (fan_results ?fan) p =
                Some (if \<not> truthy (dict_get posts p None) then Failure ''No content generated''
                      else if \<not> dict_get (available_platforms mgr) p False
                        then Failure ''Platform not available''
                      else fst (post_to_single_platform mgr p
                                  (text_of (dict_get posts p None)) idea)) \<and>
              publish_count p (Generated idea # fan_events ?fan) =
                (if truthy (dict_get posts p None) \<and>
                    dict_get (available_platforms mgr) p False then 1 else 0)"
    if p: "p \<in> {''twitter'', ''linkedin'', ''reddit''}" for p
  proof -
    from p have "p \<in> fst ` set posts" by (simp only: kp [unfolded keys_def set_map])
    then obtain c where m: "(p, c) \<in> set posts" by force
    have g: "dict_get posts p None = c" using d m by (rule dict_get_distinct)
    have "publish_count p (Generated idea # fan_events ?fan) = publish_count p (fan_events ?fan)"
      by (simp add: publish_count_def)
    then show ?thesis
      using fan_results_entry [OF d m, of dur mgr idea] fan_publish_count [OF d m p, of dur mgr idea]
      by (simp only: g)
  qed
  have u: "set (keys posts) \<union> set (keys (available_platforms mgr)) =
           {''twitter'', ''linkedin'', ''reddit''}"
    by (simp only: kp ka Un_absorb)
  have k: "set (keys (fan_results ?fan)) = {''twitter'', ''linkedin'', ''reddit''}"
    using fan_results_keys [of dur mgr posts idea] by (simp only: kp)
  show ?thesis
    unfolding r e u
  proof (intro exI [of _ "fan_results ?fan"] conjI ballI)
    show "Some (fan_results ?fan) = Some (fan_results ?fan)" ..
    show "distinct (keys (fan_results ?fan))" by (rule fan_results_distinct)
    show "set (keys (fan_results ?fan)) = {''twitter'', ''linkedin'', ''reddit''}" by (rule k)
  next
    fix p assume "p \<in> {''twitter'', ''linkedin'', ''reddit''}"
    from each [OF this] show "map_of (fan_results ?fan) p =
                Some (if \<not> truthy (dict_get posts p None) then Failure ''No content generated''
                      else if \<not> dict_get (available_platforms mgr) p False
                        then Failure ''Platform not available''
                      else fst (post_to_single_platform mgr p
                                  (text_of (dict_get posts p None)) idea))" ..
  next
    fix p assume "p \<in> {''twitter'', ''linkedin'', ''reddit''}"
    from each [OF this] show "publish_count p (Generated idea # fan_events ?fan) =
                (if truthy (dict_get posts p None) \<and>
                    dict_get (available_platforms mgr) p False then 1 else 0)" ..
  qed
qed

theorem fanout_covers_every_platform_witness:
  "list_ex truthy (values_of (generate_posts (llm_generator scenario_manager 0) ''AI in education''))
   \<and> results (fst (process_idea unit_durations scenario_manager ''AI in education'')) =
       Some [(''linkedin'', Failure ''No content generated''),
             (''reddit'', Failure ''Platform not available''),
             (''twitter'', Success [(''tweet_id'', ''1'')])]
   \<and> publish_count ''twitter'' (snd (process_idea unit_durations scenario_manager ''AI in education'')) = 1
   \<and> publish_count ''linkedin'' (snd (process_idea unit_durations scenario_manager ''AI in education'')) = 0
   \<and> publish_count ''reddit'' (snd (process_idea unit_durations scenario_manager ''AI in education'')) = 0"
proof -
  have a: "available_platforms scenario_manager = check_platform_availability True True True False"
    by (simp add: scenario_manager_def)
  have s: "list_ex truthy
      (values_of (generate_posts (llm_generator scenario_manager 0) ''AI in education''))"
    by code_simp
  have v: "process_idea unit_durations scenario_manager ''AI in education'' =
    (\<lparr>success = True, error = None,
      results = Some [(''linkedin'', Failure ''No content generated''),
             (''reddit'', Failure ''Platform not available''),
             (''twitter'', Success [(''tweet_id'', ''1'')])],
      summary = Some \<lparr>successful_posts = 1, total_platforms = 2,
           summary_idea = ''AI in education''\<rparr>,
      message = None, retried_platforms = None\<rparr>,
     [Generated ''AI in education'',
      Published ''twitter'' [''Post about AI...'', ''AI in education'']])"
    by code_simp
  show ?thesis
    using fanout_covers_every_platform [OF a refl s, of unit_durations] s
    by (simp add: v publish_count_def)
qed

section \<open>Routing, generation and retry without failures\<close>

text \<open>
  C9. The sub-forum for the forum platform is a function of the idea alone: the
  candidates are the lists of the table keys contained in the lower-cased idea, or the
  fixed default list when no key is contained; \<open>get_suitable_subreddits\<close> returns
  their first three; and the coordinator calls the poster's publish method with the
  first candidate, chosen before that call, whatever the manager and the content are.
\<close>

theorem subreddit_routing:
  "get_suitable_subreddits idea = take 3 (candidates_by_keyword idea) \<and>
   (\<exists>target rest. candidates_by_keyword idea = target # rest \<and>
      (\<forall>mgr content. post_to_single_platform mgr ''reddit'' content idea =
         (error_posting ''reddit'' (reddit_poster mgr content idea target),
          [Published ''reddit'' [content, idea, target]])))"
proof -
  have g: "get_suitable_subreddits idea = take 3 (candidates_by_keyword idea)"
    by (rule get_suitable_candidates)
  have "get_suitable_subreddits idea \<noteq> []"
    using length_get_suitable [of idea] by auto
  with g obtain target rest where c: "candidates_by_keyword idea = target # rest"
    by (cases "candidates_by_keyword idea") auto
  have "choose_subreddit (get_suitable_subreddits idea) = target"
    by (simp add: g c choose_subreddit_def)
  then have "\<forall>mgr content. post_to_single_platform mgr ''reddit'' content idea =
         (error_posting ''reddit'' (reddit_poster mgr content idea target),
          [Published ''reddit'' [content, idea, target]])"
    by (simp add: post_to_single_platform_def Let_def)
  with g c show ?thesis by blast
qed

theorem subreddit_routing_witness:
  "candidates_by_keyword ''AI in education'' =
     [''artificial'', ''MachineLearning'', ''singularity'', ''technology'',
      ''education'', ''teaching'', ''learning'', ''studytips'']
   \<and> post_to_single_platform scenario_manager ''reddit'' ''Post about AI...'' ''AI in education'' =
       (Failure ''Error posting to reddit: boom'',
        [Published ''reddit'' [''Post about AI...'', ''AI in education'', ''artificial'']])"
proof -
  have c: "candidates_by_keyword ''AI in education'' =
     [''artificial'', ''MachineLearning'', ''singularity'', ''technology'',
      ''education'', ''teaching'', ''learning'', ''studytips'']"
    by code_simp
  have r: "reddit_poster scenario_manager ''Post about AI...'' ''AI in education'' ''artificial''
           = Inl (Exception ''boom'')"
    by (simp add: scenario_manager_def)
  show ?thesis
    using subreddit_routing [of "''AI in education''"]
    by (simp add: c r error_posting_def)
qed

lemma generate_count_single:
  "generate_count (snd (post_to_single_platform mgr q t idea)) = 0"
  by (simp add: generate_count_def post_to_single_platform_def Let_def)

lemma generate_count_append:
  "generate_count (xs @ ys) = generate_count xs + generate_count ys"
  by (simp add: generate_count_def)

lemma generate_count_fan: "generate_count (fan_events (post_to_platforms dur mgr posts idea)) = 0"
proof -
  have "generate_count (concat (map (\<lambda>pc. snd (post_to_single_platform mgr (fst pc)
          (text_of (snd pc)) idea)) xs)) = 0" for xs
    by (induction xs) (simp_all add: generate_count_append generate_count_single, simp add: generate_count_def)
  then show ?thesis by (simp add: fan_events_eq)
qed

text \<open>
  C6. Every call of \<open>process_idea\<close> calls the generator exactly once. When no entry
  of the generated content set has content, it returns at once with success false and
  the error message, and the only event of the call is the generation: no poster is
  called.
\<close>

theorem generation_once_and_fail_fast:
  "generate_count (snd (process_idea dur mgr idea)) = 1 \<and>
   (\<not> list_ex truthy (values_of (generate_posts (llm_generator mgr 0) idea)) \<longrightarrow>
      process_idea dur mgr idea =
        (\<lparr>success = False, error = Some ''Failed to generate any posts'', results = None,
          summary = None, message = None, retried_platforms = None\<rparr>,
         [Generated idea]))"
proof (cases "list_ex truthy (values_of (generate_posts (llm_generator mgr 0) idea))")
  case True
  have "generate_count (Generated idea # evs) = Suc (generate_count evs)" for evs
    by (simp add: generate_count_def)
  with True show ?thesis
    by (simp add: process_idea_fanout [OF True] Let_def generate_count_fan)
next
  case False
  then show ?thesis
    by (simp add: process_idea_def Let_def generate_count_def)
qed

theorem generation_once_and_fail_fast_witness:
  "\<not> list_ex truthy (values_of (generate_posts (llm_generator silent_generator_manager 0) ''AI in education''))
   \<and> process_idea unit_durations silent_generator_manager ''AI in education'' =
        (\<lparr>success = False, error = Some ''Failed to generate any posts'', results = None,
          summary = None, message = None, retried_platforms = None\<rparr>,
         [Generated ''AI in education''])
   \<and> generate_count (snd (process_idea unit_durations scenario_manager ''AI in education'')) = 1"
proof -
  have n: "\<not> list_ex truthy
     (values_of (generate_posts (llm_generator silent_generator_manager 0) ''AI in education''))"
    by code_simp
  show ?thesis
    using generation_once_and_fail_fast [of unit_durations silent_generator_manager "''AI in education''"]
      generation_once_and_fail_fast [of unit_durations scenario_manager "''AI in education''"] n
    by simp
qed

text \<open>
  C7. When no outcome of the earlier result is a failure, \<open>retry_failed_posts\<close>
  returns the success dict with the message "No failed posts to retry" and causes no
  event: neither the generator nor a poster is called.
\<close>

theorem retry_without_failures:
  assumes "\<forall>r \<in> set (values_of (case results prior of None \<Rightarrow> [] | Some r \<Rightarrow> r)). succeeded r"
  shows "retry_failed_posts dur mgr prior idea =
           (\<lparr>success = True, error = None, results = None, summary = None,
             message = Some ''No failed posts to retry'', retried_platforms = None\<rparr>, [])"
proof -
  have "filter (\<lambda>(platform, result). \<not> succeeded result)
          (case results prior of None \<Rightarrow> [] | Some r \<Rightarrow> r) = []"
    using assms by (auto simp: values_of_def filter_empty_conv)
  then have "failed_of prior = []" by (simp add: failed_of_def)
  then show ?thesis by (simp add: retry_failed_posts_def)
qed

theorem retry_without_failures_witness:
  "list_all succeeded (values_of (case results all_success_result of None \<Rightarrow> [] | Some r \<Rightarrow> r))
   \<and> retry_failed_posts unit_durations scenario_manager all_success_result ''AI in education'' =
           (\<lparr>success = True, error = None, results = None, summary = None,
             message = Some ''No failed posts to retry'', retried_platforms = None\<rparr>, [])"
proof -
  have a: "\<forall>r \<in> set (values_of (case results all_success_result of None \<Rightarrow> [] | Some r \<Rightarrow> r)).
             succeeded r"
    by (simp add: all_success_result_def values_of_def)
  show ?thesis
    using retry_without_failures [OF a, of unit_durations scenario_manager "''AI in education''"] a
    by (simp add: list_all_iff)
qed

section \<open>The aggregate of a request\<close>

text \<open>
  In the scenario two platforms are available and the reported \<open>total_platforms\<close>
  is 2, while only Twitter has content and is available, and one publish call is made:
  the reported count is not the number of platforms with content that are available.
\<close>

theorem platform_count_counterexample:
  "map_option total_platforms
     (summary (fst (process_idea unit_durations scenario_manager ''AI in education''))) = Some 2
   \<and> length (filter (dispatchable scenario_manager)
        (generate_posts (llm_generator scenario_manager 0) ''AI in education'')) = 1
   \<and> publish_total (snd (process_idea unit_durations scenario_manager ''AI in education'')) = 1"
  by code_simp

lemma publish_total_append: "publish_total (xs @ ys) = publish_total xs + publish_total ys"
  by (simp add: publish_total_def)

lemma publish_total_single:
  "publish_total (snd (post_to_single_platform mgr q t idea)) =
   (if q \<in> {''twitter'', ''linkedin'', ''reddit''} then 1 else 0)"
  by (auto simp: publish_total_def post_to_single_platform_def Let_def)

lemma publish_total_concat:
  "publish_total (concat (map (\<lambda>pc. snd (post_to_single_platform mgr (fst pc) (text_of (snd pc)) idea)) xs))
   = length (filter (\<lambda>pc. fst pc \<in> {''twitter'', ''linkedin'', ''reddit''}) xs)"
proof (induction xs)
  case Nil
  show ?case by (simp add: publish_total_def)
next
  case (Cons x xs)
  then show ?case by (simp add: publish_total_append publish_total_single)
qed

text \<open>
  C3, amended. For every \<open>process_idea\<close> call that performs the fan-out, success is
  true exactly when the number of outcomes with success true is positive, and
  \<open>successful_posts\<close> is that number; the reported \<open>total_platforms\<close> is the number
  of platforms marked available in the availability map, whether or not content was
  generated for them. The number of publish calls made is the number of platforms with
  content that are available, which is at most the reported count.
\<close>

theorem success_and_platform_count:
  assumes avail: "available_platforms mgr =
      check_platform_availability tw_client li_token li_user rd_client"
    and posts: "posts = generate_posts (llm_generator mgr 0) idea"
    and some: "list_ex truthy (values_of posts)"
  shows "\<exists>res s. results (fst (process_idea dur mgr idea)) = Some res \<and>
           summary (fst (process_idea dur mgr idea)) = Some s \<and>
           (success (fst (process_idea dur mgr idea)) \<longleftrightarrow>
              0 < length (filter succeeded (values_of res))) \<and>
           successful_posts s = length (filter succeeded (values_of res)) \<and>
           total_platforms s =
             length (filter (\<lambda>(p, available). available) (available_platforms mgr)) \<and>
           publish_total (snd (process_idea dur mgr idea)) = length (filter (dispatchable mgr) posts) \<and>
           length (filter (dispatchable mgr) posts) \<le> total_platforms s"
proof -
  obtain c1 c2 c3 where shape: "posts = [(''twitter'', c1), (''linkedin'', c2), (''reddit'', c3)]"
    using generate_posts_shape [of "llm_generator mgr 0" idea] posts by auto
  let ?fan = "post_to_platforms dur mgr posts idea"
  let ?n = "length (filter succeeded (values_of (fan_results ?fan)))"
  let ?t = "length (filter (\<lambda>(p, available). available) (available_platforms mgr))"
  have pr: "process_idea dur mgr idea =
      (\<lparr>success = 0 < ?n, error = None, results = Some (fan_results ?fan),
        summary = Some \<lparr>successful_posts = ?n, total_platforms = ?t, summary_idea = idea\<rparr>,
        message = None, retried_platforms = None\<rparr>,
       Generated idea # fan_events ?fan)"
    using process_idea_fanout [of mgr idea dur] some posts by (simp add: Let_def)
  have "filter (\<lambda>pc. fst pc \<in> {''twitter'', ''linkedin'', ''reddit''}) (filter (dispatchable mgr) posts)
        = filter (dispatchable mgr) posts"
    by (simp add: shape)
  then have pt: "publish_total (fan_events ?fan) = length (filter (dispatchable mgr) posts)"
    by (simp add: fan_events_eq publish_total_concat)
  have pg: "publish_total (Generated idea # fan_events ?fan) = publish_total (fan_events ?fan)"
    by (simp add: publish_total_def)
  have le: "length (filter (dispatchable mgr) posts) \<le> ?t"
    by (simp add: shape avail availability_shape dispatchable_def dict_get_def)
  show ?thesis
    unfolding pr fst_conv snd_conv pg pt
    using le by simp
qed

theorem success_and_platform_count_witness:
  "list_ex truthy (values_of (generate_posts (llm_generator scenario_manager 0) ''AI in education''))
   \<and> success (fst (process_idea unit_durations scenario_manager ''AI in education''))
   \<and> map_option successful_posts
        (summary (fst (process_idea unit_durations scenario_manager ''AI in education''))) = Some 1
   \<and> map_option total_platforms
        (summary (fst (process_idea unit_durations scenario_manager ''AI in education''))) = Some 2
   \<and> length (filter (\<lambda>(p, available). available) (available_platforms scenario_manager)) = 2"
proof -
  have a: "available_platforms scenario_manager = check_platform_availability True True True False"
    by (simp add: scenario_manager_def)
  have s: "list_ex truthy
      (values_of (generate_posts (llm_generator scenario_manager 0) ''AI in education''))"
    by code_simp
  have v: "fst (process_idea unit_durations scenario_manager ''AI in education'') =
    \<lparr>success = True, error = None,
      results = Some [(''linkedin'', Failure ''No content generated''),
             (''reddit'', Failure ''Platform not available''),
             (''twitter'', Success [(''tweet_id'', ''1'')])],
      summary = Some \<lparr>successful_posts = 1, total_platforms = 2,
           summary_idea = ''AI in education''\<rparr>,
      message = None, retried_platforms = None\<rparr>"
    by code_simp
  have n: "length (filter (\<lambda>(p, available). available) (available_platforms scenario_manager)) = 2"
    by code_simp
  show ?thesis
    using success_and_platform_count [OF a refl s, of unit_durations] s n
    by (simp add: v)
qed

section \<open>Retrying\<close>

lemma update_keys: "fst ` set (AList.update k v al) = insert k (fst ` set al)"
  using dom_update [of k v al] by (simp add: dom_map_of_conv_image_fst)

lemma regenerate_loop_keys:
  "fst ` set (fst (regenerate_loop mgr idea ps (posts, evs))) \<subseteq>
   fst ` set posts \<union> {p \<in> set ps. dict_get (available_platforms mgr) p False}"
proof (induction ps arbitrary: posts evs)
  case Nil
  show ?case by simp
next
  case (Cons q ps)
  show ?case
  proof (cases "dict_get (available_platforms mgr) q False")
    case True
    then show ?thesis
      using Cons.IH [of "AList.update q
          (dict_get (generate_posts (llm_generator mgr (length evs)) idea) q None) posts"
          "evs @ [Generated idea]"]
      by (auto simp: Let_def update_keys)
  next
    case False
    then show ?thesis using Cons.IH [of posts evs] by auto
  qed
qed

lemma regenerate_loop_publish:
  "publish_count p (snd (regenerate_loop mgr idea ps (posts, evs))) = publish_count p evs"
proof (induction ps arbitrary: posts evs)
  case Nil
  show ?case by simp
next
  case (Cons q ps)
  have "publish_count p (evs @ [Generated idea]) = publish_count p evs"
    by (simp add: publish_count_def)
  then show ?case by (simp add: Cons.IH Let_def)
qed

lemma publish_count_absent:
  "p \<notin> fst ` set xs \<Longrightarrow>
   publish_count p (concat (map (\<lambda>pc. snd (post_to_single_platform mgr (fst pc)
      (text_of (snd pc)) idea)) xs)) = 0"
proof (induction xs)
  case Nil
  show ?case by (simp add: publish_count_def)
next
  case (Cons x xs)
  then show ?case by (simp add: publish_count_append publish_count_single)
qed

lemma retry_failed_posts_retry:
  assumes "failed_of prior \<noteq> []"
  shows "retry_failed_posts dur mgr prior idea =
     (let st = regenerate_loop mgr idea (failed_of prior) ([], []);
          fan = post_to_platforms dur mgr (fst st) idea
      in (\<lparr>success = list_ex succeeded (values_of (fan_results fan)), error = None,
           results = Some (fan_results fan), summary = None, message = None,
           retried_platforms = Some (failed_of prior)\<rparr>,
          snd st @ fan_events fan))"
  using assms by (simp add: retry_failed_posts_def Let_def case_prod_beta)

lemma retry_published:
  assumes f: "failed_of prior \<noteq> []"
    and c: "0 < publish_count p (snd (retry_failed_posts dur mgr prior idea))"
  shows "p \<in> set (failed_of prior) \<and> dict_get (available_platforms mgr) p False"
proof -
  let ?st = "regenerate_loop mgr idea (failed_of prior) ([], [])"
  let ?disp = "filter (dispatchable mgr) (fst ?st)"
  have "publish_count p (snd ?st) = 0"
    using regenerate_loop_publish [of p mgr idea "failed_of prior" "[]" "[]"]
    by (simp add: publish_count_def)
  with c have "0 < publish_count p (concat (map (\<lambda>pc. snd (post_to_single_platform mgr (fst pc)
      (text_of (snd pc)) idea)) ?disp))"
    by (simp add: retry_failed_posts_retry [OF f] Let_def publish_count_append fan_events_eq)
  then have "p \<in> fst ` set ?disp"
    using publish_count_absent [of p ?disp mgr idea] by (cases "p \<in> fst ` set ?disp") simp_all
  then obtain c' where m: "(p, c') \<in> set (fst ?st)" and d: "dispatchable mgr (p, c')" by auto
  from m have "p \<in> fst ` set (fst ?st)" by force
  with regenerate_loop_keys [of mgr idea "failed_of prior" "[]" "[]"]
  have "p \<in> set (failed_of prior)" by auto
  moreover from d have "dict_get (available_platforms mgr) p False"
    by (simp add: dispatchable_def)
  ultimately show ?thesis by simp
qed

lemma failed_of_set:
  assumes r: "results prior = Some r" and d: "distinct (keys r)"
  shows "set (failed_of prior) = {p. \<exists>out. map_of r p = Some out \<and> \<not> succeeded out}"
proof -
  have "set (failed_of prior) = {p. \<exists>out. (p, out) \<in> set r \<and> \<not> succeeded out}"
    by (force simp: failed_of_def r)
  moreover have "(p, out) \<in> set r \<longleftrightarrow> map_of r p = Some out" for p out
    using d by (simp add: keys_def)
  ultimately show ?thesis by simp
qed

text \<open>
  C4, amended. For an earlier result with at least one failure, a publish call of the
  retry is made only for a platform whose earlier outcome was a failure and which is
  available now; no publish call is made for a platform that succeeded earlier; and
  \<open>retried_platforms\<close> is the list of all platforms whose earlier outcome was a
  failure, which holds every platform that was dispatched.
\<close>

theorem retry_dispatches_failed_only:
  assumes r: "results prior = Some r" and d: "distinct (keys r)"
    and f: "failed_of prior \<noteq> []"
  shows "retried_platforms (fst (retry_failed_posts dur mgr prior idea)) = Some (failed_of prior) \<and>
         set (failed_of prior) = {p. \<exists>out. map_of r p = Some out \<and> \<not> succeeded out} \<and>
         (\<forall>p. 0 < publish_count p (snd (retry_failed_posts dur mgr prior idea)) \<longrightarrow>
              p \<in> set (failed_of prior) \<and> dict_get (available_platforms mgr) p False) \<and>
         (\<forall>p out. map_of r p = Some out \<and> succeeded out \<longrightarrow>
              publish_count p (snd (retry_failed_posts dur mgr prior idea)) = 0)"
proof -
  have s: "set (failed_of prior) = {p. \<exists>out. map_of r p = Some out \<and> \<not> succeeded out}"
    using r d by (rule failed_of_set)
  have one: "retried_platforms (fst (retry_failed_posts dur mgr prior idea)) = Some (failed_of prior)"
    by (simp add: retry_failed_posts_retry [OF f] Let_def)
  have two: "\<forall>p. 0 < publish_count p (snd (retry_failed_posts dur mgr prior idea)) \<longrightarrow>
              p \<in> set (failed_of prior) \<and> dict_get (available_platforms mgr) p False"
    using retry_published [OF f] by blast
  have three: "publish_count p (snd (retry_failed_posts dur mgr prior idea)) = 0"
    if "map_of r p = Some out" "succeeded out" for p out
  proof (rule ccontr)
    assume "publish_count p (snd (retry_failed_posts dur mgr prior idea)) \<noteq> 0"
    then have "p \<in> set (failed_of prior)" using two by simp
    with s that show False by simp
  qed
  from s one two three show ?thesis by blast
qed

theorem retry_dispatches_failed_only_witness:
  "failed_of scenario_result = [''linkedin'', ''reddit'']
   \<and> retry_failed_posts unit_durations recovered_manager scenario_result ''AI in education'' =
       (\<lparr>success = True, error = None,
         results = Some [(''linkedin'', Success [(''post_id'', ''2'')])],
         summary = None, message = None,
         retried_platforms = Some [''linkedin'', ''reddit'']\<rparr>,
        [Generated ''AI in education'',
         Published ''linkedin'' [''Post about AI...'', ''AI in education'']])
   \<and> publish_count ''twitter''
        (snd (retry_failed_posts unit_durations recovered_manager scenario_result
               ''AI in education'')) = 0"
proof -
  have r: "results scenario_result = Some [(''linkedin'', Failure ''No content generated''),
                      (''reddit'', Failure ''Platform not available''),
                      (''twitter'', Success [(''tweet_id'', ''1'')])]"
    by (simp add: scenario_result_def)
  have d: "distinct (keys [(''linkedin'', Failure ''No content generated''),
                      (''reddit'', Failure ''Platform not available''),
                      (''twitter'', Success [(''tweet_id'', ''1'')])])"
    by (simp add: keys_def)
  have f: "failed_of scenario_result = [''linkedin'', ''reddit'']"
    by code_simp
  then have n: "failed_of scenario_result \<noteq> []" by simp
  have v: "retry_failed_posts unit_durations recovered_manager scenario_result ''AI in education'' =
       (\<lparr>success = True, error = None,
         results = Some [(''linkedin'', Success [(''post_id'', ''2'')])],
         summary = None, message = None,
         retried_platforms = Some [''linkedin'', ''reddit'']\<rparr>,
        [Generated ''AI in education'',
         Published ''linkedin'' [''Post about AI...'', ''AI in education'']])"
    by code_simp
  show ?thesis
    using retry_dispatches_failed_only [OF r d n, of unit_durations recovered_manager "''AI in education''"] f
    by (simp add: v publish_count_def)
qed

text \<open>
  Retrying the result of the scenario on the same manager: LinkedIn gets no content
  again and Reddit is still unavailable, so no publish call is made, yet
  \<open>retried_platforms\<close> names both: it is not the set of platforms that were retried.
\<close>

theorem retried_platforms_counterexample:
  "retried_platforms (fst (retry_failed_posts unit_durations scenario_manager scenario_result
       ''AI in education'')) = Some [''linkedin'', ''reddit'']
   \<and> publish_total (snd (retry_failed_posts unit_durations scenario_manager scenario_result
       ''AI in education'')) = 0
   \<and> results (fst (retry_failed_posts unit_durations scenario_manager scenario_result
       ''AI in education'')) = Some [(''linkedin'', Failure ''No content generated'')]"
  by code_simp

section \<open>Exceptions of a poster\<close>

lemma process_idea_dispatched:
  assumes posts: "posts = generate_posts (llm_generator mgr 0) idea"
    and some: "list_ex truthy (values_of posts)"
    and m: "map_of posts p = Some (Some text)" and t: "text \<noteq> []"
    and a: "dict_get (available_platforms mgr) p False"
  shows "error (fst (process_idea dur mgr idea)) = None \<and>
         (\<exists>res. results (fst (process_idea dur mgr idea)) = Some res \<and>
            map_of res p = Some (fst (post_to_single_platform mgr p text idea)))"
proof -
  obtain c1 c2 c3 where shape: "posts = [(''twitter'', c1), (''linkedin'', c2), (''reddit'', c3)]"
    using generate_posts_shape [of "llm_generator mgr 0" idea] posts by auto
  have d: "distinct (map fst posts)" by (simp add: shape)
  have mem: "(p, Some text) \<in> set posts" using m by (rule map_of_SomeD)
  have disp: "dispatchable mgr (p, Some text)" using t a by (simp add: dispatchable_def)
  have "map_of (fan_results (post_to_platforms dur mgr posts idea)) p =
        Some (fst (post_to_single_platform mgr p text idea))"
    using fan_results_dispatched [OF d mem disp, of dur idea] by (simp add: text_of_def)
  then show ?thesis
    using process_idea_fanout [of mgr idea dur] some posts by (simp add: Let_def)
qed

lemma collect_loop_entry:
  assumes "distinct (map fut_platform fs)" and "f \<in> set fs"
  shows "map_of (fst (collect_loop fs (res0, now))) (fut_platform f) = Some (as_outcome f)"
  using fold_update_member [OF assms, of as_outcome res0] by (simp add: collect_loop_eq)

text \<open>
  C2. For every dispatched platform, \<open>process_idea\<close> returns the results dict (not
  an error), in which the platform has the outcome of its own worker: what its poster
  returned, or, when the poster raised, the failure "Error posting to <platform>:
  <message>". The outcome depends on that platform's poster alone, so the outcomes of
  the other dispatched platforms are there whatever this poster does. An exception met
  when a future's result is collected likewise becomes the failure "Exception posting
  to <platform>: <message>" of that platform, and every other future keeps its outcome.
\<close>

theorem exceptions_become_failures:
  assumes posts: "posts = generate_posts (llm_generator mgr 0) idea"
    and some: "list_ex truthy (values_of posts)"
    and m: "map_of posts p = Some (Some text)" and t: "text \<noteq> []"
    and a: "dict_get (available_platforms mgr) p False"
  shows "error (fst (process_idea dur mgr idea)) = None \<and>
         (\<exists>res. results (fst (process_idea dur mgr idea)) = Some res \<and>
            map_of res p = Some (fst (post_to_single_platform mgr p text idea))) \<and>
         fst (post_to_single_platform mgr p text idea) =
           (if p = ''twitter'' then
              (case twitter_poster mgr text idea of
                 Inl e \<Rightarrow> Failure (''Error posting to twitter: '' @ str e) | Inr r \<Rightarrow> r)
            else if p = ''linkedin'' then
              (case linkedin_poster mgr text idea of
                 Inl e \<Rightarrow> Failure (''Error posting to linkedin: '' @ str e) | Inr r \<Rightarrow> r)
            else if p = ''reddit'' then
              (case reddit_poster mgr text idea (choose_subreddit (get_suitable_subreddits idea)) of
                 Inl e \<Rightarrow> Failure (''Error posting to reddit: '' @ str e) | Inr r \<Rightarrow> r)
            else Failure (''Unknown platform: '' @ p)) \<and>
         (\<forall>fs f res0 now. distinct (map fut_platform fs) \<and> f \<in> set fs \<longrightarrow>
            map_of (fst (collect_loop fs (res0, now))) (fut_platform f) =
              Some (case fut_value f of
                      Inr r \<Rightarrow> r
                    | Inl e \<Rightarrow> Failure (''Exception posting to '' @ fut_platform f @ '': '' @ str e)))"
proof -
  have one: "error (fst (process_idea dur mgr idea)) = None \<and>
         (\<exists>res. results (fst (process_idea dur mgr idea)) = Some res \<and>
            map_of res p = Some (fst (post_to_single_platform mgr p text idea)))"
    using posts some m t a by (rule process_idea_dispatched)
  have two: "fst (post_to_single_platform mgr p text idea) =
           (if p = ''twitter'' then
              (case twitter_poster mgr text idea of
                 Inl e \<Rightarrow> Failure (''Error posting to twitter: '' @ str e) | Inr r \<Rightarrow> r)
            else if p = ''linkedin'' then
              (case linkedin_poster mgr text idea of
                 Inl e \<Rightarrow> Failure (''Error posting to linkedin: '' @ str e) | Inr r \<Rightarrow> r)
            else if p = ''reddit'' then
              (case reddit_poster mgr text idea (choose_subreddit (get_suitable_subreddits idea)) of
                 Inl e \<Rightarrow> Failure (''Error posting to reddit: '' @ str e) | Inr r \<Rightarrow> r)
            else Failure (''Unknown platform: '' @ p))"
    by (simp add: post_to_single_platform_def error_posting_def Let_def split: sum.splits)
  have three: "\<forall>fs f res0 now. distinct (map fut_platform fs) \<and> f \<in> set fs \<longrightarrow>
            map_of (fst (collect_loop fs (res0, now))) (fut_platform f) =
              Some (case fut_value f of
                      Inr r \<Rightarrow> r
                    | Inl e \<Rightarrow> Failure (''Exception posting to '' @ fut_platform f @ '': '' @ str e))"
    using collect_loop_entry by (simp add: as_outcome_def)
  from one two three show ?thesis by blast
qed

theorem exceptions_become_failures_witness:
  "map_of (generate_posts (llm_generator all_available_manager 0) ''AI in education'') ''reddit''
     = Some (Some ''Post about AI...'')
   \<and> dict_get (available_platforms all_available_manager) ''reddit'' False
   \<and> reddit_poster all_available_manager ''Post about AI...'' ''AI in education'' ''artificial''
     = Inl (Exception ''boom'')
   \<and> fst (process_idea unit_durations all_available_manager ''AI in education'') =
       \<lparr>success = True, error = None,
        results = Some [(''twitter'', Success [(''tweet_id'', ''1'')]),
                        (''linkedin'', Success [(''post_id'', ''2'')]),
                        (''reddit'', Failure ''Error posting to reddit: boom'')],
        summary = Some \<lparr>successful_posts = 2, total_platforms = 3,
                         summary_idea = ''AI in education''\<rparr>,
        message = None, retried_platforms = None\<rparr>"
proof -
  have s: "list_ex truthy
      (values_of (generate_posts (llm_generator all_available_manager 0) ''AI in education''))"
    by code_simp
  have m: "map_of (generate_posts (llm_generator all_available_manager 0) ''AI in education'')
             ''reddit'' = Some (Some ''Post about AI...'')"
    by code_simp
  have t: "''Post about AI...'' \<noteq> []" by simp
  have a: "dict_get (available_platforms all_available_manager) ''reddit'' False"
    by code_simp
  have r: "reddit_poster all_available_manager ''Post about AI...'' ''AI in education''
             ''artificial'' = Inl (Exception ''boom'')"
    by code_simp
  have v: "fst (process_idea unit_durations all_available_manager ''AI in education'') =
       \<lparr>success = True, error = None,
        results = Some [(''twitter'', Success [(''tweet_id'', ''1'')]),
                        (''linkedin'', Success [(''post_id'', ''2'')]),
                        (''reddit'', Failure ''Error posting to reddit: boom'')],
        summary = Some \<lparr>successful_posts = 2, total_platforms = 3,
                         summary_idea = ''AI in education''\<rparr>,
        message = None, retried_platforms = None\<rparr>"
    by code_simp
  show ?thesis
    using exceptions_become_failures [OF refl s m t a, of unit_durations] m a r
    by (simp add: v)
qed

section \<open>Logging inside the Twitter poster\<close>

lemma handlers_fail:
  "\<exists>msg. error_posting ''twitter'' (tweet_handlers db content idea e) = Failure msg"
  by (simp add: tweet_handlers_def error_posting_def log_post_def Let_def
      split: option.splits exn.splits)

lemma post_tweet_accepted:
  assumes cl: "client tw"
    and acc: "create_tweet tw (truncate_content text 280 ''twitter'') = Inr (Some tweet_id)"
  shows "post_tweet tw db text idea =
     (case db ''twitter'' (truncate_content text 280 ''twitter'') idea ''success'' of
        None \<Rightarrow>
          Inr (Success [(''tweet_id'', tweet_id),
                        (''url'', ''https://twitter.com/user/status/'' @ tweet_id),
                        (''content'', truncate_content text 280 ''twitter'')])
      | Some e \<Rightarrow> tweet_handlers db (truncate_content text 280 ''twitter'') idea e)"
  using cl acc
  by (simp add: post_tweet_def tweet_body_def log_post_def Let_def split: option.splits)

text \<open>
  C8, amended. For a Twitter publish attempt that the remote platform accepted, the
  outcome reported by \<open>process_idea\<close> is the success when \<open>log_post\<close> does not raise
  while logging it. When \<open>log_post\<close> raises there, the exception does not leave
  \<open>process_idea\<close>, and the outcome reported for the platform is a failure: the one of
  the handler of \<open>post_tweet\<close>, or "Error posting to twitter: <message>" when logging
  that failure raises as well.
\<close>

theorem logging_failure_changes_outcome:
  assumes posts: "posts = generate_posts (llm_generator mgr 0) idea"
    and some: "list_ex truthy (values_of posts)"
    and m: "map_of posts ''twitter'' = Some (Some text)" and t: "text \<noteq> []"
    and a: "dict_get (available_platforms mgr) ''twitter'' False"
    and tp: "twitter_poster mgr = post_tweet tw db"
    and cl: "client tw"
    and acc: "create_tweet tw (truncate_content text 280 ''twitter'') = Inr (Some tweet_id)"
  shows "\<exists>res. results (fst (process_idea dur mgr idea)) = Some res \<and>
           (db ''twitter'' (truncate_content text 280 ''twitter'') idea ''success'' = None \<longrightarrow>
              map_of res ''twitter'' =
                Some (Success [(''tweet_id'', tweet_id),
                               (''url'', ''https://twitter.com/user/status/'' @ tweet_id),
                               (''content'', truncate_content text 280 ''twitter'')])) \<and>
           (\<forall>e. db ''twitter'' (truncate_content text 280 ''twitter'') idea ''success'' = Some e \<longrightarrow>
              map_of res ''twitter'' =
                Some (error_posting ''twitter''
                        (tweet_handlers db (truncate_content text 280 ''twitter'') idea e)) \<and>
              (\<exists>msg. map_of res ''twitter'' = Some (Failure msg)))"
proof -
  from process_idea_dispatched [OF posts some m t a, of dur]
  obtain res where r: "results (fst (process_idea dur mgr idea)) = Some res"
    and o: "map_of res ''twitter'' = Some (fst (post_to_single_platform mgr ''twitter'' text idea))"
    by blast
  have single: "fst (post_to_single_platform mgr ''twitter'' text idea) =
                error_posting ''twitter'' (post_tweet tw db text idea)"
    by (simp add: post_to_single_platform_def tp)
  have ok: "fst (post_to_single_platform mgr ''twitter'' text idea) =
              Success [(''tweet_id'', tweet_id),
                       (''url'', ''https://twitter.com/user/status/'' @ tweet_id),
                       (''content'', truncate_content text 280 ''twitter'')]"
    if "db ''twitter'' (truncate_content text 280 ''twitter'') idea ''success'' = None"
    using that by (simp add: single post_tweet_accepted [OF cl acc] error_posting_def)
  have bad: "fst (post_to_single_platform mgr ''twitter'' text idea) =
               error_posting ''twitter''
                 (tweet_handlers db (truncate_content text 280 ''twitter'') idea e)"
    if "db ''twitter'' (truncate_content text 280 ''twitter'') idea ''success'' = Some e" for e
    using that by (simp add: single post_tweet_accepted [OF cl acc])
  show ?thesis
  proof (intro exI [of _ res] conjI allI impI)
    show "results (fst (process_idea dur mgr idea)) = Some res" by (rule r)
  next
    assume "db ''twitter'' (truncate_content text 280 ''twitter'') idea ''success'' = None"
    from ok [OF this] show "map_of res ''twitter'' =
                Some (Success [(''tweet_id'', tweet_id),
                               (''url'', ''https://twitter.com/user/status/'' @ tweet_id),
                               (''content'', truncate_content text 280 ''twitter'')])"
      by (simp add: o)
  next
    fix e assume "db ''twitter'' (truncate_content text 280 ''twitter'') idea ''success'' = Some e"
    from bad [OF this] show "map_of res ''twitter'' =
                Some (error_posting ''twitter''
                        (tweet_handlers db (truncate_content text 280 ''twitter'') idea e))"
      by (simp add: o)
  next
    fix e assume "db ''twitter'' (truncate_content text 280 ''twitter'') idea ''success'' = Some e"
    from bad [OF this] handlers_fail [of db "truncate_content text 280 ''twitter''" idea e]
    show "\<exists>msg. map_of res ''twitter'' = Some (Failure msg)"
      by (auto simp: o)
  qed
qed

theorem logging_failure_changes_outcome_witness:
  "map_of (generate_posts (llm_generator (logging_manager healthy_database) 0) ''AI in education'')
     ''twitter'' = Some (Some ''Post about AI...'')
   \<and> create_tweet accepting_twitter (truncate_content ''Post about AI...'' 280 ''twitter'')
     = Inr (Some ''42'')
   \<and> healthy_database ''twitter'' (truncate_content ''Post about AI...'' 280 ''twitter'')
        ''AI in education'' ''success'' = None
   \<and> results (fst (process_idea unit_durations (logging_manager healthy_database)
        ''AI in education'')) =
       Some [(''twitter'', Success [(''tweet_id'', ''42''),
                (''url'', ''https://twitter.com/user/status/42''),
                (''content'', ''Post about AI...'')]),
             (''linkedin'', Success [(''post_id'', ''2'')]),
             (''reddit'', Failure ''Error posting to reddit: boom'')]"
proof -
  let ?mgr = "logging_manager healthy_database"
  have s: "list_ex truthy (values_of (generate_posts (llm_generator ?mgr 0) ''AI in education''))"
    by code_simp
  have m: "map_of (generate_posts (llm_generator ?mgr 0) ''AI in education'') ''twitter''
           = Some (Some ''Post about AI...'')"
    by code_simp
  have t: "''Post about AI...'' \<noteq> []" by simp
  have a: "dict_get (available_platforms ?mgr) ''twitter'' False" by code_simp
  have tp: "twitter_poster ?mgr = post_tweet accepting_twitter healthy_database"
    by (simp add: logging_manager_def)
  have cl: "client accepting_twitter" by (simp add: accepting_twitter_def)
  have acc: "create_tweet accepting_twitter (truncate_content ''Post about AI...'' 280 ''twitter'')
             = Inr (Some ''42'')"
    by (simp add: accepting_twitter_def)
  have h: "healthy_database ''twitter'' (truncate_content ''Post about AI...'' 280 ''twitter'')
        ''AI in education'' ''success'' = None"
    by (simp add: healthy_database_def)
  have v: "results (fst (process_idea unit_durations ?mgr ''AI in education'')) =
       Some [(''twitter'', Success [(''tweet_id'', ''42''),
                (''url'', ''https://twitter.com/user/status/42''),
                (''content'', ''Post about AI...'')]),
             (''linkedin'', Success [(''post_id'', ''2'')]),
             (''reddit'', Failure ''Error posting to reddit: boom'')]"
    by code_simp
  show ?thesis
    using logging_failure_changes_outcome [OF refl s m t a tp cl acc, of unit_durations] m acc h
    by (simp add: v)
qed

text \<open>
  The same request with the same accepting Twitter client, once with a database that
  works and once with one that raises while the success is logged: the first reports
  the success, the second a failure. The failure of the logging sink changes the
  outcome of a publish that the platform accepted.
\<close>

theorem logging_failure_counterexample:
  "create_tweet accepting_twitter (truncate_content ''Post about AI...'' 280 ''twitter'')
     = Inr (Some ''42'')
   \<and> results (fst (process_idea unit_durations (logging_manager healthy_database)
         ''AI in education'')) =
       Some [(''twitter'', Success [(''tweet_id'', ''42''),
                (''url'', ''https://twitter.com/user/status/42''),
                (''content'', ''Post about AI...'')]),
             (''linkedin'', Success [(''post_id'', ''2'')]),
             (''reddit'', Failure ''Error posting to reddit: boom'')]
   \<and> results (fst (process_idea unit_durations (logging_manager locked_database)
         ''AI in education'')) =
       Some [(''twitter'', Failure ''Unexpected error posting to Twitter: database is locked''),
             (''linkedin'', Success [(''post_id'', ''2'')]),
             (''reddit'', Failure ''Error posting to reddit: boom'')]"
  by code_simp

section \<open>The time of the fan-out\<close>

lemma fold_max_ge: "t0 \<le> fold (\<lambda>f t. max t (done_at f)) fs t0"
proof (induction fs arbitrary: t0)
  case Nil
  show ?case by simp
next
  case (Cons f fs)
  have "t0 \<le> max t0 (done_at f)" by simp
  also have "\<dots> \<le> fold (\<lambda>f t. max t (done_at f)) fs (max t0 (done_at f))" by (rule Cons.IH)
  finally show ?case by simp
qed

lemma fold_max_member:
  "f \<in> set fs \<Longrightarrow> done_at f \<le> fold (\<lambda>f t. max t (done_at f)) fs t0"
proof (induction fs arbitrary: t0)
  case Nil
  then show ?case by simp
next
  case (Cons g fs)
  show ?case
  proof (cases "f = g")
    case True
    have "done_at g \<le> max t0 (done_at g)" by simp
    also have "\<dots> \<le> fold (\<lambda>f t. max t (done_at f)) fs (max t0 (done_at g))"
      by (rule fold_max_ge)
    finally show ?thesis using True by simp
  next
    case False
    with Cons show ?thesis by simp
  qed
qed

lemma fan_finished_waits:
  assumes "(p, c) \<in> set posts" and "dispatchable mgr (p, c)"
  shows "dur p \<le> fan_finished (post_to_platforms dur mgr posts idea)"
proof -
  let ?futs = "map (worker_future dur mgr idea) (filter (dispatchable mgr) posts)"
  have "worker_future dur mgr idea (p, c) \<in> set ?futs" using assms by simp
  then have "done_at (worker_future dur mgr idea (p, c)) \<le>
             fold (\<lambda>f t. max t (done_at f)) ?futs
               (fold (\<lambda>f t. max t (done_at f)) (as_completed ?futs) 0)"
    by (rule fold_max_member)
  then show ?thesis
    by (simp add: post_to_platforms_eq Let_def shutdown_def worker_future_simps)
qed

text \<open>
  C5. The timeout of 60 is asked of futures that \<open>as_completed\<close> has already
  delivered as done, so it never expires (\<open>collect_loop_eq\<close>), and the fan-out returns
  only when every dispatched call has returned (\<open>fan_finished_waits\<close>). With a Twitter
  call that takes 100 time units while the others take 1, the fan-out ends at time 100
  and Twitter's outcome is the poster's success, not a timeout failure.
\<close>

theorem slow_platform_is_awaited:
  "fan_finished (post_to_platforms slow_durations all_available_manager
      (generate_posts (llm_generator all_available_manager 0) ''AI in education'')
      ''AI in education'') = 100
   \<and> map_of (fan_results (post_to_platforms slow_durations all_available_manager
      (generate_posts (llm_generator all_available_manager 0) ''AI in education'')
      ''AI in education'')) ''twitter'' = Some (Success [(''tweet_id'', ''1'')])"
  by code_simp

end
